theory Spec2Isabelle
  imports Complex_Main
begin

section \<open>Authentication context and permission gate (src/mastra/mcp/utils.ts)\<close>

text \<open>
  JavaScript numbers are modelled as exact rationals (\<open>rat\<close>) or, where the code
  only ever produces integers, as \<open>int\<close>; rounding of IEEE doubles, NaN and the
  infinities are outside the model.  A thrown \<open>Error\<close> is a value \<open>Error msg\<close>
  on the left of a sum.
\<close>

datatype error = Error string

datatype Role = RoleAdmin | RoleUser | RoleReadonly

record DemoUserInfo =
  userId :: string
  username :: string
  role :: Role
  permissions :: "string list"

record AuthInfo =
  token :: string
  clientId :: string
  scopes :: "string list"
  extra :: "DemoUserInfo option"

record MCPRequestHandlerExtra =
  authInfo :: "AuthInfo option"
  sessionId :: "string option"

record ToolExecuteOptions =
  opt_extra :: "MCPRequestHandlerExtra option"

text \<open>
  The value stored in \<open>AuthContext.authInfo\<close>: an \<open>AuthInfo\<close> object, or (see
  \<open>mockUsers\<close> below) a member that the registry object inherits from
  \<open>Object.prototype\<close>.
\<close>

datatype AuthInfoValue = Info AuthInfo | ProtoMember string

record AuthContext =
  isAuthenticated :: bool
  ctx_authInfo :: "AuthInfoValue option"
  user :: "DemoUserInfo option"
  ctx_sessionId :: "string option"

text \<open>The result of reading a property of the registry object \<open>mockUsers[apiKey]\<close>.\<close>

datatype registry_entry = Own AuthInfo | Inherited string | Undefined

definition admin_info :: AuthInfo where
  "admin_info =
     \<lparr>token = ''api_key_admin_123'', clientId = ''demo-admin-client'',
      scopes = [''read:all'', ''write:all'', ''delete:all''],
      extra = Some \<lparr>userId = ''admin-1'', username = ''admin'', role = RoleAdmin,
                     permissions = [''read:all'', ''write:all'', ''delete:all'']\<rparr>\<rparr>"

definition user_info :: AuthInfo where
  "user_info =
     \<lparr>token = ''api_key_user_456'', clientId = ''demo-user-client'',
      scopes = [''read:users'', ''read:orders''],
      extra = Some \<lparr>userId = ''user-1'', username = ''analyst'', role = RoleUser,
                     permissions = [''read:users'', ''read:orders'']\<rparr>\<rparr>"

definition readonly_info :: AuthInfo where
  "readonly_info =
     \<lparr>token = ''api_key_readonly_789'', clientId = ''demo-readonly-client'',
      scopes = [''read:users''],
      extra = Some \<lparr>userId = ''readonly-1'', username = ''viewer'', role = RoleReadonly,
                     permissions = [''read:users'']\<rparr>\<rparr>"

text \<open>
  \<open>mockUsers\<close> is a plain object literal, so a lookup by an arbitrary string also
  finds the members of \<open>Object.prototype\<close> (functions, or the prototype itself for
  \<open>__proto__\<close>): truthy values that carry no \<open>extra\<close>.
\<close>

definition object_prototype_members :: "string list" where
  "object_prototype_members =
     [''constructor'', ''hasOwnProperty'', ''isPrototypeOf'', ''propertyIsEnumerable'',
      ''toLocaleString'', ''toString'', ''valueOf'', ''__proto__'',
      ''__defineGetter__'', ''__defineSetter__'', ''__lookupGetter__'', ''__lookupSetter__'']"

definition mockUsers :: "string \<Rightarrow> registry_entry" where
  "mockUsers apiKey =
     (if apiKey = ''api_key_admin_123'' then Own admin_info
      else if apiKey = ''api_key_user_456'' then Own user_info
      else if apiKey = ''api_key_readonly_789'' then Own readonly_info
      else if apiKey \<in> set object_prototype_members then Inherited apiKey
      else Undefined)"

text \<open>\<open>options?.extra?.authInfo\<close>, together with the \<open>extra\<close> it was read from.\<close>

definition transport_authInfo ::
  "ToolExecuteOptions option \<Rightarrow> (MCPRequestHandlerExtra \<times> AuthInfo) option" where
  "transport_authInfo options =
     (case options of
        None \<Rightarrow> None
      | Some opts \<Rightarrow>
          (case opt_extra opts of
             None \<Rightarrow> None
           | Some ex \<Rightarrow> (case authInfo ex of None \<Rightarrow> None | Some ai \<Rightarrow> Some (ex, ai))))"

text \<open>\<open>process.env.DEMO_API_KEY || "api_key_user_456"\<close>: unset and empty are both falsy.\<close>

definition effective_api_key :: "string option \<Rightarrow> string" where
  "effective_api_key env_DEMO_API_KEY =
     (case env_DEMO_API_KEY of
        None \<Rightarrow> ''api_key_user_456''
      | Some k \<Rightarrow> if k = [] then ''api_key_user_456'' else k)"

definition authenticateRequest ::
  "ToolExecuteOptions option \<Rightarrow> string option \<Rightarrow> AuthContext" where
  "authenticateRequest options env_DEMO_API_KEY =
     (case transport_authInfo options of
        Some (ex, ai) \<Rightarrow>
          \<lparr>isAuthenticated = True, ctx_authInfo = Some (Info ai), user = extra ai,
           ctx_sessionId = sessionId ex\<rparr>
      | None \<Rightarrow>
          (case mockUsers (effective_api_key env_DEMO_API_KEY) of
             Own ai \<Rightarrow>
               \<lparr>isAuthenticated = True, ctx_authInfo = Some (Info ai), user = extra ai,
                ctx_sessionId = Some ''demo-session''\<rparr>
           | Inherited n \<Rightarrow>
               \<lparr>isAuthenticated = True, ctx_authInfo = Some (ProtoMember n), user = None,
                ctx_sessionId = Some ''demo-session''\<rparr>
           | Undefined \<Rightarrow>
               \<lparr>isAuthenticated = False, ctx_authInfo = None, user = None,
                ctx_sessionId = None\<rparr>))"

definition checkPermission :: "AuthContext \<Rightarrow> string \<Rightarrow> bool" where
  "checkPermission auth permission =
     (case user auth of
        None \<Rightarrow> False
      | Some u \<Rightarrow>
          if \<not> isAuthenticated auth then False
          else permission \<in> set (permissions u) \<or> role u = RoleAdmin)"

definition auth_required_error :: error where
  "auth_required_error = Error ''Authentication required. Please provide valid credentials.''"

definition insufficient_permission_error :: "string \<Rightarrow> error" where
  "insufficient_permission_error permission =
     Error (''Insufficient permissions. Required: '' @ permission)"

text \<open>
  \<open>permission\<close> is the optional parameter; the guard \<open>permission && ...\<close> tests its
  truthiness, so the empty string is treated like an absent permission.
\<close>

definition requireAuth :: "AuthContext \<Rightarrow> string option \<Rightarrow> error + unit" where
  "requireAuth auth permission =
     (if \<not> isAuthenticated auth then Inl auth_required_error
      else
        (case permission of
           None \<Rightarrow> Inr ()
         | Some p \<Rightarrow>
             if p \<noteq> [] \<and> \<not> checkPermission auth p then Inl (insufficient_permission_error p)
             else Inr ()))"

section \<open>Health scoring (src/mastra/tools/compute-account-health.ts)\<close>

subsection \<open>JavaScript helpers\<close>

definition Math_max :: "rat \<Rightarrow> rat \<Rightarrow> rat" where
  "Math_max a b = (if a < b then b else a)"

definition Math_min :: "rat \<Rightarrow> rat \<Rightarrow> rat" where
  "Math_min a b = (if b < a then b else a)"

text \<open>\<open>Math.round\<close> rounds to the nearest integer, a tie going up.\<close>

definition Math_round :: "rat \<Rightarrow> int" where
  "Math_round x = \<lfloor>x + 1 / 2\<rfloor>"

text \<open>\<open>String(n)\<close> and template interpolation of an integer: its decimal digits.\<close>

fun digits_of_nat :: "nat \<Rightarrow> string" where
  "digits_of_nat n =
     (if n < 10 then [''0123456789'' ! n]
      else digits_of_nat (n div 10) @ [''0123456789'' ! (n mod 10)])"

definition String_of_int :: "int \<Rightarrow> string" where
  "String_of_int i = (if i < 0 then CHR ''-'' # digits_of_nat (nat (- i)) else digits_of_nat (nat i))"

text \<open>\<open>xs.slice(0, end)\<close> for an integer \<open>end\<close>: a negative end counts from the back.\<close>

definition slice0 :: "'a list \<Rightarrow> int \<Rightarrow> 'a list" where
  "slice0 xs end = (if end < 0 then take (nat (int (length xs) + end)) xs else take (nat end) xs)"

subsection \<open>Data\<close>

record CoreMetrics =
  lastOrderDays :: int
  orderCountWindow :: nat
  spendWindow :: rat
  spendPrevWindow :: rat
  spendDeltaPct :: rat

record Metrics = CoreMetrics +
  nps :: "rat option"
  openP1Tickets :: int
  slaBreachesWindow :: int

datatype Tier = good | watch | at_risk

record ScoreResult =
  score :: rat
  res_tier :: Tier
  res_reasons :: "string list"

subsection \<open>scoreAccount\<close>

definition clamp :: "rat \<Rightarrow> rat \<Rightarrow> rat \<Rightarrow> rat" where
  "clamp v lo hi = Math_max lo (Math_min hi v)"

definition recency :: "'a Metrics_scheme \<Rightarrow> rat" where
  "recency m = clamp (100 - of_int (lastOrderDays m)) 0 100"

definition momentum :: "'a Metrics_scheme \<Rightarrow> rat" where
  "momentum m = clamp ((spendDeltaPct m + 100) / 2) 0 100"

definition satisfaction :: "'a Metrics_scheme \<Rightarrow> rat" where
  "satisfaction m = (case nps m of None \<Rightarrow> 50 | Some n \<Rightarrow> clamp n 0 100)"

definition reliabilityPenalty :: "'a Metrics_scheme \<Rightarrow> rat" where
  "reliabilityPenalty m =
     clamp (100 - of_int (openP1Tickets m * 25 + slaBreachesWindow m * 15)) 0 100"

definition account_reasons :: "'a Metrics_scheme \<Rightarrow> string list" where
  "account_reasons m =
     (if lastOrderDays m > 60 then [''No recent orders (>60 days)''] else []) @
     (if spendDeltaPct m < - 30 then [''Spend down >30% vs prior window''] else []) @
     (if (case nps m of None \<Rightarrow> 50 | Some n \<Rightarrow> n) < 30 then [''Low NPS score''] else []) @
     (if openP1Tickets m > 0
      then [String_of_int (openP1Tickets m) @ '' open P1 support ticket(s)''] else []) @
     (if slaBreachesWindow m > 0
      then [String_of_int (slaBreachesWindow m) @ '' recent SLA breach(es)''] else []) @
     (if orderCountWindow m = 0 then [''No orders in analysis window''] else [])"

definition scoreAccount :: "'a Metrics_scheme \<Rightarrow> ScoreResult" where
  "scoreAccount m =
     (let score = clamp (recency m * (3 / 10) + momentum m * (3 / 10) +
                         satisfaction m * (25 / 100) + reliabilityPenalty m * (15 / 100)) 0 100;
          tier = (if score \<ge> 75 then good else if score \<ge> 50 then watch else at_risk)
      in \<lparr>score = score, res_tier = tier, res_reasons = account_reasons m\<rparr>)"

subsection \<open>The formula of the specification\<close>

text \<open>
  The composite as the specification words it (section 4.5), with the usual three-way
  clamp, for comparison with \<open>scoreAccount\<close>.
\<close>

definition spec_clamp :: "rat \<Rightarrow> rat \<Rightarrow> rat \<Rightarrow> rat" where
  "spec_clamp v lo hi = (if v < lo then lo else if hi < v then hi else v)"

definition spec_composite :: "'a Metrics_scheme \<Rightarrow> rat" where
  "spec_composite m =
     spec_clamp
       (3 / 10 * spec_clamp (100 - of_int (lastOrderDays m)) 0 100 +
        3 / 10 * spec_clamp ((spendDeltaPct m + 100) / 2) 0 100 +
        1 / 4 * (case nps m of None \<Rightarrow> 50 | Some n \<Rightarrow> spec_clamp n 0 100) +
        15 / 100 * spec_clamp (100 - of_int (openP1Tickets m * 25 + slaBreachesWindow m * 15)) 0 100)
       0 100"

definition spec_tier :: "int \<Rightarrow> Tier" where
  "spec_tier healthScore =
     (if healthScore \<ge> 75 then good else if healthScore \<ge> 50 then watch else at_risk)"

section \<open>The compute\_account\_health workflow\<close>

subsection \<open>Ledger and metric aggregation\<close>

text \<open>
  The tables \<open>users\<close> and \<open>orders\<close> come from \<open>../mcp/mock-data\<close> and are
  parameters of the model.  An order's \<open>created\<close> field stands for
  \<open>new Date(o.created).getTime()\<close>, a number of milliseconds (unparsable dates are
  outside the model); \<open>uid\<close> and \<open>oid\<close> are the \<open>id\<close> fields.

  The steps of \<open>execute\<close> are separate definitions.  \<open>aggregate_user\<close> is the
  callback of \<open>users.map\<close> in step 1; \<open>lastOrder_of\<close>, \<open>lastOrderDays_of\<close> and
  \<open>spendDeltaPct_of\<close> are the expressions it binds to \<open>lastOrder\<close>,
  \<open>lastOrderDays\<close> and \<open>spendDeltaPct\<close>.
\<close>

record UserRow =
  uid :: int
  uname :: string
  city :: string
  joined :: string

record OrderRow =
  oid :: int
  user_id :: int
  total :: rat
  created :: int

record AccountIdent =
  accountId :: string
  name :: string

record MetricEntry = AccountIdent +
  core :: CoreMetrics

definition day_ms :: int where
  "day_ms = 24 * 3600 * 1000"

text \<open>\<open>xs.reduce((sum, o) => sum + o.total, 0)\<close>\<close>

definition sum_totals :: "OrderRow list \<Rightarrow> rat" where
  "sum_totals xs = fold (\<lambda>ord acc. acc + total ord) xs 0"

definition lastOrder_of :: "OrderRow list \<Rightarrow> int" where
  "lastOrder_of userOrders =
     (case map created userOrders of [] \<Rightarrow> 0 | t # ts \<Rightarrow> fold max ts t)"

definition lastOrderDays_of :: "int \<Rightarrow> OrderRow list \<Rightarrow> int" where
  "lastOrderDays_of now userOrders =
     (let lastOrder = lastOrder_of userOrders
      in if lastOrder > 0 then \<lfloor>(of_int (now - lastOrder) :: rat) / of_int day_ms\<rfloor> else 999)"

text \<open>\<open>spendPrevWindow || 1\<close> replaces a zero denominator only.\<close>

definition spendDeltaPct_of :: "rat \<Rightarrow> rat \<Rightarrow> rat" where
  "spendDeltaPct_of sw sp =
     (if sw = 0 \<and> sp = 0 then 0
      else ((sw - sp) / (if sp = 0 then 1 else sp)) * 100)"

definition aggregate_user :: "int \<Rightarrow> int \<Rightarrow> OrderRow list \<Rightarrow> UserRow \<Rightarrow> MetricEntry" where
  "aggregate_user now windowDays orders u =
     (let since = now - windowDays * 24 * 3600 * 1000;
          prevSince = since - windowDays * 24 * 3600 * 1000;
          userOrders = filter (\<lambda>ord. user_id ord = uid u) orders;
          windowOrders = filter (\<lambda>ord. created ord \<ge> since) userOrders;
          prevWindowOrders = filter (\<lambda>ord. created ord \<ge> prevSince \<and> created ord < since) userOrders;
          sw = sum_totals windowOrders;
          sp = sum_totals prevWindowOrders
      in \<lparr>accountId = String_of_int (uid u), name = uname u,
          core = \<lparr>lastOrderDays = lastOrderDays_of now userOrders,
                  orderCountWindow = length windowOrders,
                  spendWindow = sw, spendPrevWindow = sp,
                  spendDeltaPct = spendDeltaPct_of sw sp\<rparr>\<rparr>)"

subsection \<open>Segment filter\<close>

datatype Segment = all | inactive | highValue

definition segment_pred :: "Segment \<Rightarrow> MetricEntry \<Rightarrow> bool" where
  "segment_pred segment m =
     (if segment = inactive then lastOrderDays (core m) > 45
      else if segment = highValue then spendWindow (core m) \<ge> 100
      else True)"

definition segment_filter :: "Segment \<Rightarrow> MetricEntry list \<Rightarrow> MetricEntry list" where
  "segment_filter segment ms = take 500 (filter (segment_pred segment) ms)"

subsection \<open>External signals and scoring of one account\<close>

text \<open>
  The two external maps are the entries of the objects the fetches resolve to, each key
  once.  A key that is absent, or present with \<open>null\<close>, reads as \<open>null\<close> through
  \<open>npsMap[id] ?? null\<close>; an absent support record reads as 0 through \<open>?. ... ?? 0\<close>.
  \<open>combine_metrics\<close> and \<open>score_row\<close> are the callback of \<open>filtered.map\<close> in
  step 4.
\<close>

record SupportSignal =
  sig_openP1Tickets :: int
  sig_slaBreachesWindow :: int

type_synonym NpsMap = "(string \<times> rat option) list"
type_synonym SupportMap = "(string \<times> SupportSignal) list"

record AccountHealthRow = AccountIdent +
  healthScore :: int
  tier :: Tier
  metrics :: Metrics
  reasons :: "string list option"

definition combine_metrics :: "NpsMap \<Rightarrow> SupportMap \<Rightarrow> MetricEntry \<Rightarrow> Metrics" where
  "combine_metrics npsMap supportMap f =
     \<lparr>lastOrderDays = lastOrderDays (core f),
      orderCountWindow = orderCountWindow (core f),
      spendWindow = spendWindow (core f),
      spendPrevWindow = spendPrevWindow (core f),
      spendDeltaPct = spendDeltaPct (core f),
      nps = (case map_of npsMap (accountId f) of None \<Rightarrow> None | Some v \<Rightarrow> v),
      openP1Tickets =
        (case map_of supportMap (accountId f) of None \<Rightarrow> 0 | Some s \<Rightarrow> sig_openP1Tickets s),
      slaBreachesWindow =
        (case map_of supportMap (accountId f) of None \<Rightarrow> 0 | Some s \<Rightarrow> sig_slaBreachesWindow s)\<rparr>"

definition score_row :: "bool \<Rightarrow> NpsMap \<Rightarrow> SupportMap \<Rightarrow> MetricEntry \<Rightarrow> AccountHealthRow" where
  "score_row includeReasons npsMap supportMap f =
     (let m = combine_metrics npsMap supportMap f;
          scoreResult = scoreAccount m
      in \<lparr>accountId = accountId f, name = name f,
          healthScore = Math_round (score scoreResult),
          tier = res_tier scoreResult,
          metrics = m,
          reasons = (if includeReasons then Some (res_reasons scoreResult) else None)\<rparr>)"

subsection \<open>Ranking, role cap and summary\<close>

text \<open>
  \<open>localeCompare\<close> is locale dependent and is a parameter \<open>cmp\<close>.  \<open>Array.sort\<close> is
  stable; it is modelled by a stable insertion sort under the comparator of the source.
  \<open>shape_result\<close> covers steps 5 and 6: the sort, the role limit and the summary.
\<close>

definition compare_rows ::
  "(string \<Rightarrow> string \<Rightarrow> int) \<Rightarrow> AccountHealthRow \<Rightarrow> AccountHealthRow \<Rightarrow> int" where
  "compare_rows cmp a b =
     (if healthScore a - healthScore b \<noteq> 0 then healthScore a - healthScore b
      else cmp (accountId a) (accountId b))"

fun insert_row ::
  "(string \<Rightarrow> string \<Rightarrow> int) \<Rightarrow> AccountHealthRow \<Rightarrow> AccountHealthRow list \<Rightarrow> AccountHealthRow list" where
  "insert_row cmp x [] = [x]"
| "insert_row cmp x (y # ys) =
     (if compare_rows cmp x y \<le> 0 then x # y # ys else y # insert_row cmp x ys)"

definition sort_rows ::
  "(string \<Rightarrow> string \<Rightarrow> int) \<Rightarrow> AccountHealthRow list \<Rightarrow> AccountHealthRow list" where
  "sort_rows cmp xs = foldr (insert_row cmp) xs []"

definition roleLimit_of :: "AuthContext \<Rightarrow> int \<Rightarrow> int" where
  "roleLimit_of auth limit =
     (case user auth of
        None \<Rightarrow> limit
      | Some u \<Rightarrow> if role u = RoleReadonly then min limit 10 else limit)"

fun bump_tier :: "Tier \<Rightarrow> (Tier \<times> nat) list \<Rightarrow> (Tier \<times> nat) list" where
  "bump_tier t [] = [(t, 1)]"
| "bump_tier t ((k, n) # acc) = (if k = t then (k, n + 1) # acc else (k, n) # bump_tier t acc)"

record ExternalDataCoverage =
  npsAvailable :: nat
  supportDataAvailable :: nat

record Summary =
  totalAnalyzed :: nat
  segmentBreakdown :: "(Tier \<times> nat) list"
  avgHealthScore :: int
  externalDataCoverage :: ExternalDataCoverage

record HealthResult =
  accounts :: "AccountHealthRow list"
  summary :: Summary

definition shape_result ::
  "(string \<Rightarrow> string \<Rightarrow> int) \<Rightarrow> AuthContext \<Rightarrow> int \<Rightarrow> NpsMap \<Rightarrow> SupportMap \<Rightarrow>
   AccountHealthRow list \<Rightarrow> HealthResult" where
  "shape_result cmp auth limit npsMap supportMap scored =
     (let finalResults = slice0 (sort_rows cmp scored) (roleLimit_of auth limit);
          segmentBreakdown = fold (\<lambda>account acc. bump_tier (tier account) acc) finalResults [];
          avgHealthScore =
            (if length finalResults > 0
             then Math_round (of_int (fold (\<lambda>a acc. acc + healthScore a) finalResults 0) /
                              of_nat (length finalResults))
             else 0)
      in \<lparr>accounts = finalResults,
          summary = \<lparr>totalAnalyzed = length finalResults,
                     segmentBreakdown = segmentBreakdown,
                     avgHealthScore = avgHealthScore,
                     externalDataCoverage =
                       \<lparr>npsAvailable = length (filter (\<lambda>v. v \<noteq> None) (map snd npsMap)),
                        supportDataAvailable = length (map fst supportMap)\<rparr>\<rparr>\<rparr>)"

subsection \<open>The tool's execute function\<close>

record AccountHealthInput =
  segment :: Segment
  windowDays :: int
  limit :: int
  includeReasons :: bool

text \<open>
  The environment of one call: the variable \<open>DEMO_API_KEY\<close>, the clock read by
  \<open>new Date()\<close>, the two tables, \<open>localeCompare\<close>, and the outcome of each external
  fetch for the ids it is given (a rejected promise is \<open>Inl\<close>).
\<close>

record World =
  env_DEMO_API_KEY :: "string option"
  now :: int
  users :: "UserRow list"
  orders :: "OrderRow list"
  localeCompare :: "string \<Rightarrow> string \<Rightarrow> int"
  fetchNpsByAccount :: "string list \<Rightarrow> error + NpsMap"
  fetchSupportSignals :: "string list \<Rightarrow> int \<Rightarrow> error + SupportMap"

text \<open>\<open>await Promise.all([p, q])\<close>: both values, or the rejection of one of them.\<close>

definition Promise_all :: "error + 'a \<Rightarrow> error + 'b \<Rightarrow> error + ('a \<times> 'b)" where
  "Promise_all p q =
     (case p of
        Inl e \<Rightarrow> Inl e
      | Inr a \<Rightarrow> (case q of Inl e \<Rightarrow> Inl e | Inr b \<Rightarrow> Inr (a, b)))"

definition filtered_accounts :: "World \<Rightarrow> AccountHealthInput \<Rightarrow> MetricEntry list" where
  "filtered_accounts w inp =
     segment_filter (segment inp)
       (map (aggregate_user (now w) (windowDays inp) (orders w)) (users w))"

text \<open>The body of the \<open>try\<close> block.\<close>

definition execute_try ::
  "World \<Rightarrow> AccountHealthInput \<Rightarrow> ToolExecuteOptions option \<Rightarrow> error + HealthResult" where
  "execute_try w inp options =
     (let auth = authenticateRequest options (env_DEMO_API_KEY w)
      in case requireAuth auth (Some ''read:users'') of
           Inl e \<Rightarrow> Inl e
         | Inr _ \<Rightarrow>
             (let since = now w - windowDays inp * 24 * 3600 * 1000;
                  filtered = filtered_accounts w inp;
                  accountIds = map accountId filtered
              in case Promise_all (fetchNpsByAccount w accountIds)
                                  (fetchSupportSignals w accountIds since) of
                   Inl e \<Rightarrow> Inl e
                 | Inr (npsMap, supportMap) \<Rightarrow>
                     Inr (shape_result (localeCompare w) auth (limit inp) npsMap supportMap
                            (map (score_row (includeReasons inp) npsMap supportMap) filtered))))"

definition empty_result :: HealthResult where
  "empty_result =
     \<lparr>accounts = [],
      summary = \<lparr>totalAnalyzed = 0, segmentBreakdown = [], avgHealthScore = 0,
                 externalDataCoverage = \<lparr>npsAvailable = 0, supportDataAvailable = 0\<rparr>\<rparr>\<rparr>"

text \<open>\<open>try { ... } catch (error) { return the empty shape }\<close>\<close>

definition execute ::
  "World \<Rightarrow> AccountHealthInput \<Rightarrow> ToolExecuteOptions option \<Rightarrow> HealthResult" where
  "execute w inp options =
     (case execute_try w inp options of Inl e \<Rightarrow> empty_result | Inr r \<Rightarrow> r)"

section \<open>The run\_sql tool (src/mastra/tools/sql-tool.ts)\<close>

subsection \<open>String helpers\<close>

text \<open>
  Strings are handled as ASCII: \<open>toLowerCase\<close> maps the letters A to Z, the white
  space of \<open>trim\<close> and of the regular expression class \<open>\s\<close> is the ASCII white
  space, and the word characters of \<open>\b\<close> are letters, digits and the underscore.
\<close>

definition toLowerCase_char :: "char \<Rightarrow> char" where
  "toLowerCase_char c =
     (case map_of (zip ''ABCDEFGHIJKLMNOPQRSTUVWXYZ'' ''abcdefghijklmnopqrstuvwxyz'') c of
        None \<Rightarrow> c
      | Some d \<Rightarrow> d)"

definition toLowerCase :: "string \<Rightarrow> string" where
  "toLowerCase s = map toLowerCase_char s"

definition is_space :: "char \<Rightarrow> bool" where
  "is_space c \<longleftrightarrow> c \<in> set [CHR '' '', CHR 0x09, CHR 0x0A, CHR 0x0B, CHR 0x0C, CHR 0x0D]"

definition is_word_char :: "char \<Rightarrow> bool" where
  "is_word_char c \<longleftrightarrow>
     c \<in> set ''abcdefghijklmnopqrstuvwxyzABCDEFGHIJKLMNOPQRSTUVWXYZ0123456789_''"

definition trim :: "string \<Rightarrow> string" where
  "trim s = rev (dropWhile is_space (rev (dropWhile is_space s)))"

fun startsWith :: "string \<Rightarrow> string \<Rightarrow> bool" where
  "startsWith s [] = True"
| "startsWith [] (p # ps) = False"
| "startsWith (c # cs) (p # ps) = (c = p \<and> startsWith cs ps)"

fun includes_str :: "string \<Rightarrow> string \<Rightarrow> bool" where
  "includes_str [] sub = (sub = [])"
| "includes_str (c # cs) sub = (startsWith (c # cs) sub \<or> includes_str cs sub)"

text \<open>\<open>/^\s*select/i.test(sql)\<close>\<close>

definition test_select :: "string \<Rightarrow> bool" where
  "test_select s = startsWith (toLowerCase (dropWhile is_space s)) ''select''"

text \<open>
  \<open>/\blimit\b/i.test(sql)\<close> on the lower-cased string: an occurrence of \<open>limit\<close>
  that no word character precedes or follows.
\<close>

fun limit_word_from :: "bool \<Rightarrow> string \<Rightarrow> bool" where
  "limit_word_from prev_is_word [] = False"
| "limit_word_from prev_is_word (c # cs) =
     ((\<not> prev_is_word \<and> startsWith (c # cs) ''limit'' \<and>
       (case drop 5 (c # cs) of [] \<Rightarrow> True | d # ds \<Rightarrow> \<not> is_word_char d))
      \<or> limit_word_from (is_word_char c) cs)"

definition test_limit :: "string \<Rightarrow> bool" where
  "test_limit s = limit_word_from False (toLowerCase s)"

text \<open>\<open>[...new Set(xs)]\<close>: the distinct elements in order of first occurrence.\<close>

fun unique_first :: "'a list \<Rightarrow> 'a list" where
  "unique_first [] = []"
| "unique_first (x # xs) = x # unique_first (filter (\<lambda>y. y \<noteq> x) xs)"

subsection \<open>parseSQL and executeQuery\<close>

record ParsedSQL =
  table :: "string option"
  operation :: string
  parse_error :: "string option"

definition parseSQL :: "string \<Rightarrow> ParsedSQL" where
  "parseSQL s =
     (let trimmed = toLowerCase (trim s)
      in if \<not> startsWith trimmed ''select''
         then \<lparr>table = None, operation = ''invalid'',
               parse_error = Some ''Only SELECT queries are allowed.''\<rparr>
         else if includes_str trimmed ''users''
         then \<lparr>table = Some ''users'', operation = ''select'', parse_error = None\<rparr>
         else if includes_str trimmed ''orders''
         then \<lparr>table = Some ''orders'', operation = ''select'', parse_error = None\<rparr>
         else \<lparr>table = None, operation = ''select'',
               parse_error = Some ''Table not found. Available tables: users, orders''\<rparr>)"

record JoinRow =
  j_id :: int
  j_name :: string
  j_city :: string
  j_joined :: string
  total_spend :: rat
  order_count :: nat

datatype SqlRow = UserR UserRow | OrderR OrderRow | CityR string | JoinR JoinRow

definition join_row :: "OrderRow list \<Rightarrow> UserRow \<Rightarrow> JoinRow" where
  "join_row os u =
     (let userOrders = filter (\<lambda>ord. user_id ord = uid u) os
      in \<lparr>j_id = uid u, j_name = uname u, j_city = city u, j_joined = joined u,
          total_spend = fold (\<lambda>ord acc. acc + total ord) userOrders 0,
          order_count = length userOrders\<rparr>)"

definition executeQuery :: "UserRow list \<Rightarrow> OrderRow list \<Rightarrow> string \<Rightarrow> int \<Rightarrow> error + SqlRow list" where
  "executeQuery us os s l =
     (let parsed = parseSQL s
      in case parse_error parsed of
           Some msg \<Rightarrow> Inl (Error msg)
         | None \<Rightarrow>
             (let trimmed = toLowerCase (trim s)
              in if includes_str trimmed ''distinct'' \<and> includes_str trimmed ''city''
                 then Inr (map CityR (unique_first (map city us)))
                 else if includes_str trimmed ''join''
                         \<or> (includes_str trimmed ''users'' \<and> includes_str trimmed ''orders'')
                 then Inr (slice0 (map (\<lambda>u. JoinR (join_row os u)) us) l)
                 else if table parsed = Some ''users'' then Inr (slice0 (map UserR us) l)
                 else if table parsed = Some ''orders'' then Inr (slice0 (map OrderR os) l)
                 else Inr (slice0 (map UserR us) l)))"

subsection \<open>The tool's execute function\<close>

record RunSqlInput =
  sql :: string
  sql_limit :: int

record RunSqlMetadata =
  executedBy :: string
  permission :: string
  filteredByRole :: bool
  md_error :: "string option"

record RunSqlOutput =
  rows :: "SqlRow list"
  rowCount :: nat
  metadata :: RunSqlMetadata

text \<open>
  The function receives \<open>options\<close> like the other tool, and reads the tables of the
  world; it never calls \<open>authenticateRequest\<close> or \<open>requireAuth\<close>.  The outer
  \<open>catch\<close> handles the one \<open>throw\<close> of the guardrail, the inner one the error of
  \<open>executeQuery\<close>.
\<close>

definition run_sql_execute :: "World \<Rightarrow> RunSqlInput \<Rightarrow> ToolExecuteOptions option \<Rightarrow> RunSqlOutput" where
  "run_sql_execute w inp options =
     (let s = sql inp;
          l = sql_limit inp;
          parsed = parseSQL s;
          requiredPermission =
            (if table parsed = Some ''orders'' \<or> includes_str (toLowerCase s) ''orders''
             then ''read:orders''
             else if includes_str (toLowerCase s) ''join'' \<or> includes_str (toLowerCase s) ''orders''
             then ''read:orders''
             else ''read:users'')
      in if \<not> test_select s
         then \<lparr>rows = [], rowCount = 0,
               metadata = \<lparr>executedBy = ''unknown'', permission = ''unknown'',
                            filteredByRole = False,
                            md_error = Some ''Only SELECT queries are allowed.''\<rparr>\<rparr>
         else
           (let s' = (if \<not> test_limit s then trim s @ '' LIMIT '' @ String_of_int l else s);
                effectiveLimit = l;
                filteredByRole = False
            in case executeQuery (users w) (orders w) s' effectiveLimit of
                 Inr rs \<Rightarrow>
                   \<lparr>rows = rs, rowCount = length rs,
                    metadata = \<lparr>executedBy = ''unknown'', permission = requiredPermission,
                                 filteredByRole = filteredByRole, md_error = None\<rparr>\<rparr>
               | Inl (Error msg) \<Rightarrow>
                   \<lparr>rows = [], rowCount = 0,
                    metadata = \<lparr>executedBy = ''unknown'', permission = requiredPermission,
                                 filteredByRole = filteredByRole, md_error = Some msg\<rparr>\<rparr>))"

subsection \<open>The spend delta of the specification\<close>

text \<open>Section 3 of the specification: the denominator is \<open>max(prevSpend, 1)\<close>.\<close>

definition spec_spendDeltaPct :: "rat \<Rightarrow> rat \<Rightarrow> rat" where
  "spec_spendDeltaPct spend prevSpend =
     (if spend = 0 \<and> prevSpend = 0 then 0 else (spend - prevSpend) / max prevSpend 1 * 100)"

subsection \<open>The role cap of the specification\<close>

text \<open>Section 4.6: \<open>roleCap(readonly) = 10\<close>, the requested limit for every other role.\<close>

definition spec_roleCap :: "Role \<Rightarrow> int \<Rightarrow> int" where
  "spec_roleCap r requestedLimit = (if r = RoleReadonly then 10 else requestedLimit)"

section \<open>Fixtures\<close>

text \<open>Concrete inputs on which the theorems below are evaluated.\<close>

definition entry_A :: MetricEntry where
  "entry_A = \<lparr>accountId = ''1'', name = ''A'',
     core = \<lparr>lastOrderDays = 0, orderCountWindow = 1, spendWindow = 100, spendPrevWindow = 100,
             spendDeltaPct = 0\<rparr>\<rparr>"

definition entry_B :: MetricEntry where
  "entry_B = \<lparr>accountId = ''2'', name = ''B'',
     core = \<lparr>lastOrderDays = 100, orderCountWindow = 1, spendWindow = 100, spendPrevWindow = 100,
             spendDeltaPct = 0\<rparr>\<rparr>"

definition user_1 :: UserRow where
  "user_1 = \<lparr>uid = 1, uname = ''Alice'', city = ''Paris'', joined = ''2024-01-01''\<rparr>"

text \<open>The clock reads day 1000 after the epoch.\<close>

definition now_1000 :: int where
  "now_1000 = 1000 * 86400000"

definition ledger_small :: "OrderRow list" where
  "ledger_small =
     [\<lparr>oid = 1, user_id = 1, total = 1, created = 990 * 86400000\<rparr>,
      \<lparr>oid = 2, user_id = 1, total = 1 / 2, created = 900 * 86400000\<rparr>,
      \<lparr>oid = 3, user_id = 2, total = 70, created = 995 * 86400000\<rparr>]"

definition ledger_scenario :: "OrderRow list" where
  "ledger_scenario =
     [\<lparr>oid = 1, user_id = 1, total = 100, created = 995 * 86400000\<rparr>,
      \<lparr>oid = 2, user_id = 1, total = 200, created = 950 * 86400000\<rparr>,
      \<lparr>oid = 3, user_id = 1, total = 50, created = 850 * 86400000\<rparr>,
      \<lparr>oid = 4, user_id = 2, total = 70, created = 995 * 86400000\<rparr>]"

definition ledger_future :: "OrderRow list" where
  "ledger_future = [\<lparr>oid = 1, user_id = 1, total = 20, created = 1001 * 86400000 + 1\<rparr>]"

definition ledger_epoch :: "OrderRow list" where
  "ledger_epoch = [\<lparr>oid = 1, user_id = 1, total = 20, created = 0\<rparr>]"

text \<open>A lexicographic comparison by character code, standing in for \<open>localeCompare\<close>.\<close>

fun string_cmp :: "string \<Rightarrow> string \<Rightarrow> int" where
  "string_cmp [] [] = 0"
| "string_cmp [] (y # ys) = - 1"
| "string_cmp (x # xs) [] = 1"
| "string_cmp (x # xs) (y # ys) =
     (if (of_char x :: nat) < of_char y then - 1
      else if (of_char y :: nat) < of_char x then 1 else string_cmp xs ys)"

definition users_12 :: "UserRow list" where
  "users_12 = map (\<lambda>i. \<lparr>uid = int i, uname = ''U'', city = ''X'', joined = ''2024-01-01''\<rparr>) [1..<13]"

definition world_one :: "string option \<Rightarrow> World" where
  "world_one key =
     \<lparr>env_DEMO_API_KEY = key, now = now_1000, users = [user_1], orders = ledger_scenario,
      localeCompare = string_cmp,
      fetchNpsByAccount = (\<lambda>ids. Inr []),
      fetchSupportSignals =
        (\<lambda>ids since. Inr (map (\<lambda>i. (i, \<lparr>sig_openP1Tickets = 1, sig_slaBreachesWindow = 0\<rparr>)) ids))\<rparr>"

definition world_nps_down :: "string option \<Rightarrow> World" where
  "world_nps_down key =
     (world_one key)\<lparr>fetchNpsByAccount := (\<lambda>ids. Inl (Error ''NPS service unavailable''))\<rparr>"

definition world_12 :: "string option \<Rightarrow> World" where
  "world_12 key = (world_one key)\<lparr>users := users_12\<rparr>"

definition input_all :: "int \<Rightarrow> AccountHealthInput" where
  "input_all l = \<lparr>segment = all, windowDays = 90, limit = l, includeReasons = True\<rparr>"

definition options_guest :: "ToolExecuteOptions option" where
  "options_guest =
     Some \<lparr>opt_extra = Some \<lparr>authInfo = Some \<lparr>token = ''t'', clientId = ''guest-client'', scopes = [],
         extra = Some \<lparr>userId = ''guest-1'', username = ''guest'', role = RoleUser,
                        permissions = [''read:orders'']\<rparr>\<rparr>,
       sessionId = None\<rparr>\<rparr>"

definition row_one :: AccountHealthRow where
  "row_one =
     \<lparr>accountId = ''1'', name = ''Alice'', healthScore = 82, tier = good,
      metrics = \<lparr>lastOrderDays = 5, orderCountWindow = 2, spendWindow = 300,
                 spendPrevWindow = 50, spendDeltaPct = 500, nps = None,
                 openP1Tickets = 1, slaBreachesWindow = 0\<rparr>,
      reasons = Some [''1 open P1 support ticket(s)'']\<rparr>"

definition query_users :: RunSqlInput where
  "query_users = \<lparr>sql = ''SELECT * FROM users'', sql_limit = 50\<rparr>"

definition query_orders :: RunSqlInput where
  "query_orders = \<lparr>sql = ''SELECT * FROM orders'', sql_limit = 50\<rparr>"

section \<open>Properties of the authentication layer\<close>

lemma checkPermission_iff:
  "checkPermission auth p \<longleftrightarrow>
     isAuthenticated auth \<and>
     (case user auth of None \<Rightarrow> False | Some u \<Rightarrow> p \<in> set (permissions u) \<or> role u = RoleAdmin)"
  by (auto simp: checkPermission_def split: option.splits)

lemma unauth_ctx:
  "authenticateRequest None (Some ''no_such_key'') =
     \<lparr>isAuthenticated = False, ctx_authInfo = None, user = None, ctx_sessionId = None\<rparr>"
  by (simp add: authenticateRequest_def transport_authInfo_def effective_api_key_def
        mockUsers_def object_prototype_members_def)

lemma default_ctx:
  "authenticateRequest None None =
     \<lparr>isAuthenticated = True, ctx_authInfo = Some (Info user_info),
      user = Some \<lparr>userId = ''user-1'', username = ''analyst'', role = RoleUser,
                    permissions = [''read:users'', ''read:orders'']\<rparr>,
      ctx_sessionId = Some ''demo-session''\<rparr>"
  by (simp add: authenticateRequest_def transport_authInfo_def effective_api_key_def
        mockUsers_def user_info_def)

lemma admin_ctx:
  "authenticateRequest None (Some ''api_key_admin_123'') =
     \<lparr>isAuthenticated = True, ctx_authInfo = Some (Info admin_info),
      user = Some \<lparr>userId = ''admin-1'', username = ''admin'', role = RoleAdmin,
                    permissions = [''read:all'', ''write:all'', ''delete:all'']\<rparr>,
      ctx_sessionId = Some ''demo-session''\<rparr>"
  by (simp add: authenticateRequest_def transport_authInfo_def effective_api_key_def
        mockUsers_def admin_info_def)

lemma readonly_ctx:
  "authenticateRequest None (Some ''api_key_readonly_789'') =
     \<lparr>isAuthenticated = True, ctx_authInfo = Some (Info readonly_info),
      user = Some \<lparr>userId = ''readonly-1'', username = ''viewer'', role = RoleReadonly,
                    permissions = [''read:users'']\<rparr>,
      ctx_sessionId = Some ''demo-session''\<rparr>"
  by (simp add: authenticateRequest_def transport_authInfo_def effective_api_key_def
        mockUsers_def readonly_info_def)

text \<open>
  Claim C5, as amended.  \<open>requireAuth\<close> fails with the authentication-required error
  whenever the context is unauthenticated, whatever the permission argument.  For an
  authenticated context and a non-empty permission \<open>p\<close> it fails with the
  insufficient-permission error naming \<open>p\<close> exactly when the context has no principal or
  the principal is not an admin and does not hold \<open>p\<close>; an admin passes every check;
  with no permission, or with the empty string as permission, an authenticated context
  always passes.  The two errors are different values.  \<open>requireAuth\<close> is a pure
  function of its two arguments, so the raised error is its only effect.
\<close>

theorem requireAuth_gate:
  "(\<not> isAuthenticated auth \<longrightarrow> requireAuth auth perm = Inl auth_required_error)
   \<and> (isAuthenticated auth \<longrightarrow>
        requireAuth auth None = Inr () \<and> requireAuth auth (Some []) = Inr ())
   \<and> (isAuthenticated auth \<and> p \<noteq> [] \<longrightarrow>
        requireAuth auth (Some p) =
          (if (case user auth of None \<Rightarrow> True
               | Some u \<Rightarrow> role u \<noteq> RoleAdmin \<and> p \<notin> set (permissions u))
           then Inl (insufficient_permission_error p) else Inr ()))
   \<and> (isAuthenticated auth \<and> user auth = Some u \<and> role u = RoleAdmin \<longrightarrow>
        requireAuth auth perm = Inr ())
   \<and> auth_required_error \<noteq> insufficient_permission_error p"
  by (auto simp: requireAuth_def checkPermission_iff auth_required_error_def
        insufficient_permission_error_def split: option.splits)

theorem requireAuth_gate_witness:
  "requireAuth (authenticateRequest None (Some ''no_such_key'')) (Some ''read:users'')
     = Inl auth_required_error
   \<and> requireAuth (authenticateRequest None None) (Some ''write:all'')
     = Inl (insufficient_permission_error ''write:all'')
   \<and> requireAuth (authenticateRequest None None) (Some ''read:users'') = Inr ()
   \<and> requireAuth (authenticateRequest None None) None = Inr ()
   \<and> requireAuth (authenticateRequest None (Some ''api_key_admin_123'')) (Some ''read:users'')
     = Inr ()"
  using requireAuth_gate [of "authenticateRequest None (Some ''no_such_key'')"
          "Some ''read:users''" "''read:users''"]
        requireAuth_gate [of "authenticateRequest None None" None "''write:all''"]
        requireAuth_gate [of "authenticateRequest None None" None "''read:users''"]
        requireAuth_gate [of "authenticateRequest None (Some ''api_key_admin_123'')"
          "Some ''read:users''" "''read:users''"
          "\<lparr>userId = ''admin-1'', username = ''admin'', role = RoleAdmin,
            permissions = [''read:all'', ''write:all'', ''delete:all'']\<rparr>"]
  by (simp add: unauth_ctx default_ctx admin_ctx)

text \<open>
  Claim C5 as stated fails for the empty permission string: the default principal is
  authenticated, is not an admin and does not hold the empty permission, yet
  \<open>requireAuth\<close> raises nothing.
\<close>

theorem requireAuth_empty_permission_counterexample:
  "isAuthenticated (authenticateRequest None None)
   \<and> user (authenticateRequest None None) =
       Some \<lparr>userId = ''user-1'', username = ''analyst'', role = RoleUser,
             permissions = [''read:users'', ''read:orders'']\<rparr>
   \<and> RoleUser \<noteq> RoleAdmin
   \<and> [] \<notin> set [''read:users'', ''read:orders'']
   \<and> requireAuth (authenticateRequest None None) (Some [])
       \<noteq> Inl (insufficient_permission_error [])
   \<and> requireAuth (authenticateRequest None None) (Some []) = Inr ()"
  by (simp add: default_ctx requireAuth_def)

text \<open>
  Claim C10.  When the transport supplies no auth info, \<open>authenticateRequest\<close> uses the
  variable \<open>DEMO_API_KEY\<close>, and the key \<open>api_key_user_456\<close> when the variable is
  unset: the call is then authenticated as the principal \<open>analyst\<close> with role
  \<open>user\<close>, permissions \<open>read:users\<close> and \<open>read:orders\<close> and session
  \<open>demo-session\<close>.  A key of the registry authenticates as its principal.  The result
  is unauthenticated exactly when the variable holds a non-empty value for which the
  registry lookup yields nothing, and it is then the bare unauthenticated context.
\<close>

theorem authenticateRequest_env_fallback:
  assumes "transport_authInfo options = None"
  shows "effective_api_key None = ''api_key_user_456''
   \<and> authenticateRequest options None =
       \<lparr>isAuthenticated = True, ctx_authInfo = Some (Info user_info),
        user = Some \<lparr>userId = ''user-1'', username = ''analyst'', role = RoleUser,
                      permissions = [''read:users'', ''read:orders'']\<rparr>,
        ctx_sessionId = Some ''demo-session''\<rparr>
   \<and> (mockUsers (effective_api_key env) = Own ai \<longrightarrow>
        authenticateRequest options env =
          \<lparr>isAuthenticated = True, ctx_authInfo = Some (Info ai), user = extra ai,
           ctx_sessionId = Some ''demo-session''\<rparr>)
   \<and> (\<not> isAuthenticated (authenticateRequest options env) \<longleftrightarrow>
        (\<exists>k. env = Some k \<and> k \<noteq> [] \<and> mockUsers k = Undefined))
   \<and> (\<not> isAuthenticated (authenticateRequest options env) \<longrightarrow>
        authenticateRequest options env =
          \<lparr>isAuthenticated = False, ctx_authInfo = None, user = None, ctx_sessionId = None\<rparr>)"
  using assms
  by (auto simp: authenticateRequest_def effective_api_key_def mockUsers_def user_info_def
        split: option.splits registry_entry.splits if_splits)

theorem authenticateRequest_env_fallback_witness:
  "transport_authInfo None = None
   \<and> isAuthenticated (authenticateRequest None None)
   \<and> authenticateRequest None (Some ''api_key_readonly_789'') =
       \<lparr>isAuthenticated = True, ctx_authInfo = Some (Info readonly_info),
        user = extra readonly_info, ctx_sessionId = Some ''demo-session''\<rparr>
   \<and> \<not> isAuthenticated (authenticateRequest None (Some ''no_such_key''))"
proof -
  have h: "transport_authInfo None = None" by (simp add: transport_authInfo_def)
  have k: "mockUsers ''no_such_key'' = Undefined"
    by (simp add: mockUsers_def object_prototype_members_def)
  have r: "mockUsers (effective_api_key (Some ''api_key_readonly_789'')) = Own readonly_info"
    by (simp add: mockUsers_def effective_api_key_def)
  show ?thesis
    using h k r
      authenticateRequest_env_fallback [OF h, of "Some ''api_key_readonly_789''" readonly_info]
      authenticateRequest_env_fallback [OF h, of "Some ''no_such_key''"]
    by auto
qed

section \<open>Properties of the health scorer\<close>

lemma clamp_spec_clamp: "clamp v 0 100 = spec_clamp v 0 100"
  by (simp add: clamp_def spec_clamp_def Math_max_def Math_min_def)


lemma score_scoreAccount: "score (scoreAccount m) = spec_composite m"
  by (simp add: scoreAccount_def Let_def spec_composite_def recency_def momentum_def
        satisfaction_def reliabilityPenalty_def clamp_spec_clamp mult.commute split: option.splits)




lemma tier_scoreAccount:
  "res_tier (scoreAccount m) =
     (if spec_composite m \<ge> 75 then good else if spec_composite m \<ge> 50 then watch else at_risk)"
  using score_scoreAccount [of m] by (simp add: scoreAccount_def Let_def)

lemma score_row_fields:
  "accountId (score_row ir n s f) = accountId f"
  "name (score_row ir n s f) = name f"
  "metrics (score_row ir n s f) = combine_metrics n s f"
  "healthScore (score_row ir n s f) = Math_round (spec_composite (combine_metrics n s f))"
  "tier (score_row ir n s f) = res_tier (scoreAccount (combine_metrics n s f))"
  by (simp_all add: score_row_def Let_def score_scoreAccount)


text \<open>
  Claim C2, as amended.  The tier of a returned account record is determined by the
  unrounded composite score: at least 75 gives \<open>good\<close>, at least 50 and below 75 gives
  \<open>watch\<close>, below 50 gives \<open>at_risk\<close>.  In terms of the reported, rounded
  \<open>healthScore\<close> the thresholds of the specification hold for every value other than
  75 and 50 (so 74 gives \<open>watch\<close> and 49 gives \<open>at_risk\<close>); a \<open>healthScore\<close> of 75
  goes with \<open>good\<close> or \<open>watch\<close> and one of 50 with \<open>watch\<close> or \<open>at_risk\<close>.
\<close>

theorem tier_from_score:
  "tier (score_row ir n s f) =
     (if spec_composite (metrics (score_row ir n s f)) \<ge> 75 then good
      else if spec_composite (metrics (score_row ir n s f)) \<ge> 50 then watch else at_risk)
   \<and> (healthScore (score_row ir n s f) \<noteq> 75 \<and> healthScore (score_row ir n s f) \<noteq> 50 \<longrightarrow>
        tier (score_row ir n s f) = spec_tier (healthScore (score_row ir n s f)))
   \<and> (healthScore (score_row ir n s f) = 75 \<longrightarrow>
        tier (score_row ir n s f) = good \<or> tier (score_row ir n s f) = watch)
   \<and> (healthScore (score_row ir n s f) = 50 \<longrightarrow>
        tier (score_row ir n s f) = watch \<or> tier (score_row ir n s f) = at_risk)"
proof -
  define c where "c = spec_composite (combine_metrics n s f)"
  have hs: "healthScore (score_row ir n s f) = \<lfloor>c + 1 / 2\<rfloor>"
    by (simp add: score_row_fields c_def Math_round_def)
  have t: "tier (score_row ir n s f) = (if c \<ge> 75 then good else if c \<ge> 50 then watch else at_risk)"
    by (simp add: score_row_fields tier_scoreAccount c_def)
  have lo: "of_int \<lfloor>c + 1 / 2\<rfloor> \<le> c + 1 / 2" and hi: "c + 1 / 2 < of_int \<lfloor>c + 1 / 2\<rfloor> + 1"
    by linarith+
  show ?thesis
    unfolding score_row_fields(3) c_def [symmetric] hs t spec_tier_def
    using lo hi by (auto; linarith)
qed

lemma Math_round_eqI: "of_int k \<le> x + 1 / 2 \<Longrightarrow> x + 1 / 2 < of_int k + 1 \<Longrightarrow> Math_round x = k"
  unfolding Math_round_def by (rule floor_unique)

lemmas score_eval_defs = scoreAccount_def Let_def combine_metrics_def recency_def
  momentum_def satisfaction_def reliabilityPenalty_def clamp_def Math_max_def Math_min_def
  account_reasons_def

lemma row_A59:
  "score_row True [(''1'', Some 59)] [] entry_A =
     \<lparr>accountId = ''1'', name = ''A'', healthScore = 75, tier = watch,
      metrics = \<lparr>lastOrderDays = 0, orderCountWindow = 1, spendWindow = 100,
                 spendPrevWindow = 100, spendDeltaPct = 0, nps = Some 59,
                 openP1Tickets = 0, slaBreachesWindow = 0\<rparr>,
      reasons = Some []\<rparr>"
proof -
  have "Math_round (299 / 4) = 75" by (rule Math_round_eqI) simp_all
  then show ?thesis
    by (simp add: score_row_def score_eval_defs entry_A_def)
qed

lemma row_B79:
  "score_row True [(''2'', Some 79)] [] entry_B =
     \<lparr>accountId = ''2'', name = ''B'', healthScore = 50, tier = at_risk,
      metrics = \<lparr>lastOrderDays = 100, orderCountWindow = 1, spendWindow = 100,
                 spendPrevWindow = 100, spendDeltaPct = 0, nps = Some 79,
                 openP1Tickets = 0, slaBreachesWindow = 0\<rparr>,
      reasons = Some [''No recent orders (>60 days)'']\<rparr>"
proof -
  have "Math_round (199 / 4) = 50" by (rule Math_round_eqI) simp_all
  then show ?thesis
    by (simp add: score_row_def score_eval_defs entry_B_def)
qed

lemma row_A55:
  "score_row True [(''1'', Some 55)] [] entry_A =
     \<lparr>accountId = ''1'', name = ''A'', healthScore = 74, tier = watch,
      metrics = \<lparr>lastOrderDays = 0, orderCountWindow = 1, spendWindow = 100,
                 spendPrevWindow = 100, spendDeltaPct = 0, nps = Some 55,
                 openP1Tickets = 0, slaBreachesWindow = 0\<rparr>,
      reasons = Some []\<rparr>"
proof -
  have "Math_round (295 / 4) = 74" by (rule Math_round_eqI) simp_all
  then show ?thesis
    by (simp add: score_row_def score_eval_defs entry_A_def)
qed

lemma row_B75:
  "score_row True [(''2'', Some 75)] [] entry_B =
     \<lparr>accountId = ''2'', name = ''B'', healthScore = 49, tier = at_risk,
      metrics = \<lparr>lastOrderDays = 100, orderCountWindow = 1, spendWindow = 100,
                 spendPrevWindow = 100, spendDeltaPct = 0, nps = Some 75,
                 openP1Tickets = 0, slaBreachesWindow = 0\<rparr>,
      reasons = Some [''No recent orders (>60 days)'']\<rparr>"
proof -
  have "Math_round (195 / 4) = 49" by (rule Math_round_eqI) simp_all
  then show ?thesis
    by (simp add: score_row_def score_eval_defs entry_B_def)
qed

text \<open>Rows with the health scores 74, 49, 75 and 50.\<close>

theorem tier_from_score_witness:
  "tier (score_row True [(''1'', Some 55)] [] entry_A) = watch
   \<and> healthScore (score_row True [(''1'', Some 55)] [] entry_A) = 74
   \<and> tier (score_row True [(''2'', Some 75)] [] entry_B) = at_risk
   \<and> healthScore (score_row True [(''2'', Some 75)] [] entry_B) = 49
   \<and> healthScore (score_row True [(''1'', Some 59)] [] entry_A) = 75
   \<and> (tier (score_row True [(''1'', Some 59)] [] entry_A) = good
        \<or> tier (score_row True [(''1'', Some 59)] [] entry_A) = watch)
   \<and> healthScore (score_row True [(''2'', Some 79)] [] entry_B) = 50
   \<and> (tier (score_row True [(''2'', Some 79)] [] entry_B) = watch
        \<or> tier (score_row True [(''2'', Some 79)] [] entry_B) = at_risk)"
  using tier_from_score [of True "[(''1'', Some 55)]" "[]" entry_A]
        tier_from_score [of True "[(''2'', Some 75)]" "[]" entry_B]
        tier_from_score [of True "[(''1'', Some 59)]" "[]" entry_A]
        tier_from_score [of True "[(''2'', Some 79)]" "[]" entry_B]
  by (simp add: row_A55 row_B75 row_A59 row_B79 spec_tier_def)

text \<open>
  Claim C2 as stated fails at the boundaries: a composite of 74.75 is reported as
  \<open>healthScore\<close> 75 with tier \<open>watch\<close>, and a composite of 49.75 as
  \<open>healthScore\<close> 50 with tier \<open>at_risk\<close>.
\<close>

theorem tier_from_healthScore_counterexample:
  "healthScore (score_row True [(''1'', Some 59)] [] entry_A) = 75
   \<and> tier (score_row True [(''1'', Some 59)] [] entry_A) = watch
   \<and> tier (score_row True [(''1'', Some 59)] [] entry_A)
       \<noteq> spec_tier (healthScore (score_row True [(''1'', Some 59)] [] entry_A))
   \<and> healthScore (score_row True [(''2'', Some 79)] [] entry_B) = 50
   \<and> tier (score_row True [(''2'', Some 79)] [] entry_B) = at_risk
   \<and> tier (score_row True [(''2'', Some 79)] [] entry_B)
       \<noteq> spec_tier (healthScore (score_row True [(''2'', Some 79)] [] entry_B))"
  by (simp add: row_A59 row_B79 spec_tier_def)



section \<open>Properties of the metric aggregator\<close>

lemma floor_days: "\<lfloor>(of_int a :: rat) / of_int day_ms\<rfloor> = a div day_ms"
  by (rule floor_divide_of_int_eq)

lemma floor_days_diff:
  "\<lfloor>(rat_of_int a - rat_of_int b) / rat_of_int c\<rfloor> = (a - b) div c"
  by (simp only: of_int_diff [symmetric] floor_divide_of_int_eq)

lemma lastOrder_of_Max:
  "xs \<noteq> [] \<Longrightarrow> lastOrder_of xs = Max (created ` set xs)"
  by (cases xs) (simp_all add: lastOrder_of_def Max.set_eq_fold [symmetric])

lemma lastOrderDays_of_cases:
  "lastOrderDays_of t xs =
     (if xs \<noteq> [] \<and> 0 < Max (created ` set xs) then (t - Max (created ` set xs)) div day_ms
      else 999)"
  by (cases "xs = []") (simp_all add: lastOrderDays_of_def Let_def floor_days_diff lastOrder_of_Max, simp add: lastOrder_of_def)

lemma lastOrderDays_of_div:
  "lastOrderDays_of t xs =
     (if lastOrder_of xs > 0 then (t - lastOrder_of xs) div day_ms else 999)"
  by (simp add: lastOrderDays_of_def Let_def floor_days_diff)

lemmas aggregate_eval_defs = aggregate_user_def Let_def lastOrderDays_of_div lastOrder_of_def
  day_ms_def sum_totals_def spendDeltaPct_of_def String_of_int_def

lemma aggregate_user_core:
  "lastOrderDays (core (aggregate_user t wd ords u)) =
     lastOrderDays_of t (filter (\<lambda>ord. user_id ord = uid u) ords)"
  "spendWindow (core (aggregate_user t wd ords u)) =
     sum_totals (filter (\<lambda>ord. created ord \<ge> t - wd * 24 * 3600 * 1000)
                  (filter (\<lambda>ord. user_id ord = uid u) ords))"
  "spendPrevWindow (core (aggregate_user t wd ords u)) =
     sum_totals (filter (\<lambda>ord. created ord \<ge> t - wd * 24 * 3600 * 1000 - wd * 24 * 3600 * 1000
                              \<and> created ord < t - wd * 24 * 3600 * 1000)
                  (filter (\<lambda>ord. user_id ord = uid u) ords))"
  "spendDeltaPct (core (aggregate_user t wd ords u)) =
     spendDeltaPct_of (spendWindow (core (aggregate_user t wd ords u)))
                      (spendPrevWindow (core (aggregate_user t wd ords u)))"
  "accountId (aggregate_user t wd ords u) = String_of_int (uid u)"
  by (simp_all add: aggregate_user_def Let_def)

text \<open>
  Claim C6, as amended.  For every account the spend delta is 0 when the spend of the
  window and of the prior window are both 0, and otherwise (spend - prevSpend) / d * 100
  where the denominator d is prevSpend when that is not 0 and 1 when it is 0.  This
  agrees with the denominator max(prevSpend, 1) of the specification whenever prevSpend
  is 0 or at least 1.  A spend of 150 after a prior spend of 0 gives 15000.
\<close>

theorem spendDeltaPct_rule:
  "spendDeltaPct (core (aggregate_user t wd ords u)) =
     (if spendWindow (core (aggregate_user t wd ords u)) = 0
         \<and> spendPrevWindow (core (aggregate_user t wd ords u)) = 0 then 0
      else (spendWindow (core (aggregate_user t wd ords u))
              - spendPrevWindow (core (aggregate_user t wd ords u)))
           / (if spendPrevWindow (core (aggregate_user t wd ords u)) = 0 then 1
              else spendPrevWindow (core (aggregate_user t wd ords u))) * 100)
   \<and> (spendPrevWindow (core (aggregate_user t wd ords u)) = 0
        \<or> spendPrevWindow (core (aggregate_user t wd ords u)) \<ge> 1 \<longrightarrow>
       spendDeltaPct (core (aggregate_user t wd ords u)) =
         spec_spendDeltaPct (spendWindow (core (aggregate_user t wd ords u)))
                            (spendPrevWindow (core (aggregate_user t wd ords u))))
   \<and> spendDeltaPct_of 0 0 = 0
   \<and> spendDeltaPct_of 150 0 = 15000"
  by (auto simp: aggregate_user_core(4) spendDeltaPct_of_def spec_spendDeltaPct_def max_def)

lemma aggregate_small:
  "aggregate_user now_1000 90 ledger_small user_1 =
     \<lparr>accountId = ''1'', name = ''Alice'',
      core = \<lparr>lastOrderDays = 10, orderCountWindow = 1, spendWindow = 1,
              spendPrevWindow = 1 / 2, spendDeltaPct = 100\<rparr>\<rparr>"
  by (simp add: aggregate_eval_defs ledger_small_def user_1_def now_1000_def)

lemma aggregate_scenario:
  "aggregate_user now_1000 90 ledger_scenario user_1 =
     \<lparr>accountId = ''1'', name = ''Alice'',
      core = \<lparr>lastOrderDays = 5, orderCountWindow = 2, spendWindow = 300,
              spendPrevWindow = 50, spendDeltaPct = 500\<rparr>\<rparr>"
  by (simp add: aggregate_eval_defs ledger_scenario_def user_1_def now_1000_def)

lemma aggregate_future:
  "aggregate_user now_1000 90 ledger_future user_1 =
     \<lparr>accountId = ''1'', name = ''Alice'',
      core = \<lparr>lastOrderDays = - 2, orderCountWindow = 1, spendWindow = 20,
              spendPrevWindow = 0, spendDeltaPct = 2000\<rparr>\<rparr>"
  by (simp add: aggregate_eval_defs ledger_future_def user_1_def now_1000_def)

lemma aggregate_epoch:
  "aggregate_user now_1000 90 ledger_epoch user_1 =
     \<lparr>accountId = ''1'', name = ''Alice'',
      core = \<lparr>lastOrderDays = 999, orderCountWindow = 0, spendWindow = 0,
              spendPrevWindow = 0, spendDeltaPct = 0\<rparr>\<rparr>"
  by (simp add: aggregate_eval_defs ledger_epoch_def user_1_def now_1000_def)

lemma aggregate_no_orders:
  "aggregate_user now_1000 90 [] user_1 =
     \<lparr>accountId = ''1'', name = ''Alice'',
      core = \<lparr>lastOrderDays = 999, orderCountWindow = 0, spendWindow = 0,
              spendPrevWindow = 0, spendDeltaPct = 0\<rparr>\<rparr>"
  by (simp add: aggregate_eval_defs user_1_def now_1000_def)

text \<open>
  The scenario of the specification: 300 in the window after 50 in the prior window
  gives 500.
\<close>

theorem spendDeltaPct_rule_witness:
  "spendPrevWindow (core (aggregate_user now_1000 90 ledger_scenario user_1)) \<ge> 1
   \<and> spendDeltaPct (core (aggregate_user now_1000 90 ledger_scenario user_1)) = 500
   \<and> spec_spendDeltaPct 300 50 = 500
   \<and> spendDeltaPct (core (aggregate_user now_1000 90 ledger_small user_1)) = 100"
  using spendDeltaPct_rule [of now_1000 90 ledger_scenario user_1]
        spendDeltaPct_rule [of now_1000 90 ledger_small user_1]
  by (simp add: aggregate_scenario aggregate_small)

text \<open>
  Claim C6 as stated fails for a prior spend strictly between 0 and 1: with a spend of 1
  after a prior spend of 1/2 the code divides by 1/2 and yields 100, the formula of the
  specification divides by 1 and yields 50.
\<close>

theorem spendDeltaPct_max_counterexample:
  "spendWindow (core (aggregate_user now_1000 90 ledger_small user_1)) = 1
   \<and> spendPrevWindow (core (aggregate_user now_1000 90 ledger_small user_1)) = 1 / 2
   \<and> spendDeltaPct (core (aggregate_user now_1000 90 ledger_small user_1)) = 100
   \<and> spec_spendDeltaPct 1 (1 / 2) = 50
   \<and> spendDeltaPct (core (aggregate_user now_1000 90 ledger_small user_1)) \<noteq>
       spec_spendDeltaPct (spendWindow (core (aggregate_user now_1000 90 ledger_small user_1)))
         (spendPrevWindow (core (aggregate_user now_1000 90 ledger_small user_1)))"
  by (simp add: aggregate_small spec_spendDeltaPct_def)

text \<open>
  Claim C8, as amended.  For an account with no orders \<open>lastOrderDays\<close> is the
  sentinel 999.  For an account whose most recent order lies after the epoch and not
  after the clock reading, it is the whole number of days (of 86400000 ms) elapsed since
  that order, and it is not negative.  An account whose orders all lie at or before the
  epoch gets the sentinel 999 as well.  The value is an integer in every case.
\<close>

theorem lastOrderDays_rule:
  "(filter (\<lambda>ord. user_id ord = uid u) ords = [] \<longrightarrow>
      lastOrderDays (core (aggregate_user t wd ords u)) = 999)
   \<and> (filter (\<lambda>ord. user_id ord = uid u) ords \<noteq> []
       \<and> 0 < Max (created ` set (filter (\<lambda>ord. user_id ord = uid u) ords))
       \<and> Max (created ` set (filter (\<lambda>ord. user_id ord = uid u) ords)) \<le> t \<longrightarrow>
      lastOrderDays (core (aggregate_user t wd ords u)) =
        (t - Max (created ` set (filter (\<lambda>ord. user_id ord = uid u) ords))) div 86400000
      \<and> 0 \<le> lastOrderDays (core (aggregate_user t wd ords u))
      \<and> lastOrderDays (core (aggregate_user t wd ords u)) * 86400000
          \<le> t - Max (created ` set (filter (\<lambda>ord. user_id ord = uid u) ords))
      \<and> t - Max (created ` set (filter (\<lambda>ord. user_id ord = uid u) ords))
          < lastOrderDays (core (aggregate_user t wd ords u)) * 86400000 + 86400000)
   \<and> (filter (\<lambda>ord. user_id ord = uid u) ords \<noteq> []
       \<and> Max (created ` set (filter (\<lambda>ord. user_id ord = uid u) ords)) \<le> 0 \<longrightarrow>
      lastOrderDays (core (aggregate_user t wd ords u)) = 999)"
proof -
  define xs where "xs = filter (\<lambda>ord. user_id ord = uid u) ords"
  define M where "M = Max (created ` set xs)"
  have d: "lastOrderDays (core (aggregate_user t wd ords u)) =
      (if xs \<noteq> [] \<and> 0 < M then (t - M) div 86400000 else 999)"
    by (simp add: aggregate_user_core(1) lastOrderDays_of_cases xs_def M_def day_ms_def)
  have "0 \<le> (t - M) div 86400000" if "M \<le> t"
    using that by (simp add: pos_imp_zdiv_nonneg_iff)
  moreover have "(t - M) div 86400000 * 86400000 \<le> t - M"
    using div_mult_mod_eq [of "t - M" 86400000] pos_mod_sign [of 86400000 "t - M"]
    by linarith
  moreover have "t - M < (t - M) div 86400000 * 86400000 + 86400000"
    using div_mult_mod_eq [of "t - M" 86400000] pos_mod_bound [of 86400000 "t - M"]
    by linarith
  ultimately show ?thesis
    unfolding xs_def [symmetric] M_def [symmetric] d by auto
qed

lemma user_1_small_orders:
  "filter (\<lambda>ord. user_id ord = uid user_1) ledger_small \<noteq> []
   \<and> Max (created ` set (filter (\<lambda>ord. user_id ord = uid user_1) ledger_small)) = 85536000000"
  by (simp add: ledger_small_def user_1_def)

theorem lastOrderDays_rule_witness:
  "filter (\<lambda>ord. user_id ord = uid user_1) ledger_small \<noteq> []
   \<and> Max (created ` set (filter (\<lambda>ord. user_id ord = uid user_1) ledger_small)) = 85536000000
   \<and> (0::int) < 85536000000 \<and> 85536000000 \<le> now_1000
   \<and> lastOrderDays (core (aggregate_user now_1000 90 ledger_small user_1)) = 10
   \<and> lastOrderDays (core (aggregate_user now_1000 90 [] user_1)) = 999"
  using lastOrderDays_rule [of user_1 ledger_small now_1000 90]
        lastOrderDays_rule [of user_1 "[]" now_1000 90]
        user_1_small_orders
  by (simp add: aggregate_small aggregate_no_orders now_1000_def)

lemma user_1_other_orders:
  "filter (\<lambda>ord. user_id ord = uid user_1) ledger_future \<noteq> []
   \<and> filter (\<lambda>ord. user_id ord = uid user_1) ledger_epoch \<noteq> []
   \<and> Max (created ` set (filter (\<lambda>ord. user_id ord = uid user_1) ledger_epoch)) = 0"
  by (simp add: ledger_future_def ledger_epoch_def user_1_def)

text \<open>
  Claim C8 as stated fails in two ways: an order dated after the clock reading gives a
  negative \<open>lastOrderDays\<close>, and an account whose only order is dated at the epoch,
  1000 days before the clock reading, gets the sentinel 999.
\<close>

theorem lastOrderDays_counterexample:
  "filter (\<lambda>ord. user_id ord = uid user_1) ledger_future \<noteq> []
   \<and> lastOrderDays (core (aggregate_user now_1000 90 ledger_future user_1)) = - 2
   \<and> lastOrderDays (core (aggregate_user now_1000 90 ledger_future user_1)) < 0
   \<and> filter (\<lambda>ord. user_id ord = uid user_1) ledger_epoch \<noteq> []
   \<and> Max (created ` set (filter (\<lambda>ord. user_id ord = uid user_1) ledger_epoch)) = 0
   \<and> (now_1000 - 0) div 86400000 = 1000
   \<and> lastOrderDays (core (aggregate_user now_1000 90 ledger_epoch user_1)) = 999"
proof -
  have "(now_1000 - 0) div 86400000 = 1000"
    by (simp add: now_1000_def)
  then show ?thesis
    using user_1_other_orders by (simp add: aggregate_future aggregate_epoch)
qed

section \<open>Properties of the workflow\<close>

lemma length_insert_row: "length (insert_row cmp x ys) = Suc (length ys)"
  by (induction ys) simp_all


lemma length_sort_rows: "length (sort_rows cmp xs) = length xs"
  unfolding sort_rows_def by (induction xs) (simp_all add: length_insert_row)


lemma length_slice0: "0 \<le> n \<Longrightarrow> length (slice0 xs n) = min (nat n) (length xs)"
  by (simp add: slice0_def min.commute)


lemma shape_result_fields:
  "accounts (shape_result cmp auth l n s scored) = slice0 (sort_rows cmp scored) (roleLimit_of auth l)"
  "totalAnalyzed (summary (shape_result cmp auth l n s scored)) =
     length (slice0 (sort_rows cmp scored) (roleLimit_of auth l))"
  by (simp_all add: shape_result_def Let_def)

lemma roleLimit_of_spec:
  "user auth = Some u \<Longrightarrow> roleLimit_of auth l = min l (spec_roleCap (role u) l)"
  by (simp add: roleLimit_of_def spec_roleCap_def)

lemma Promise_all_cases:
  "Promise_all (Inl e) q = Inl e"
  "Promise_all (Inr a) (Inl e) = Inl e"
  "Promise_all (Inr a) (Inr b) = Inr (a, b)"
  by (simp_all add: Promise_all_def)

lemma Promise_all_Inr_iff:
  "Promise_all p q = Inr r \<longleftrightarrow> (\<exists>a b. p = Inr a \<and> q = Inr b \<and> r = (a, b))"
  by (auto simp: Promise_all_def split: sum.splits)

text \<open>The three ways in which the body fails, and its one way to succeed.\<close>

lemma execute_try_Inr_iff:
  "execute_try w inp options = Inr r \<longleftrightarrow>
     (\<exists>n s. requireAuth (authenticateRequest options (env_DEMO_API_KEY w)) (Some ''read:users'') = Inr ()
        \<and> fetchNpsByAccount w (map accountId (filtered_accounts w inp)) = Inr n
        \<and> fetchSupportSignals w (map accountId (filtered_accounts w inp))
             (now w - windowDays inp * 24 * 3600 * 1000) = Inr s
        \<and> r = shape_result (localeCompare w) (authenticateRequest options (env_DEMO_API_KEY w))
                 (limit inp) n s (map (score_row (includeReasons inp) n s) (filtered_accounts w inp)))"
  by (auto simp: execute_try_def Let_def Promise_all_def split: sum.splits)

lemma execute_cases:
  "execute w inp options = empty_result \<or> execute_try w inp options = Inr (execute w inp options)"
  by (simp add: execute_def split: sum.splits)

lemma requireAuth_Inr_user:
  "requireAuth auth (Some ''read:users'') = Inr () \<Longrightarrow>
     isAuthenticated auth \<and> (\<exists>u. user auth = Some u \<and> (''read:users'' \<in> set (permissions u) \<or> role u = RoleAdmin))"
  by (auto simp: requireAuth_def checkPermission_def split: if_splits option.splits)

lemma empty_result_fields:
  "accounts empty_result = []" "totalAnalyzed (summary empty_result) = 0"
  by (simp_all add: empty_result_def)

text \<open>
  Claim C3.  \<open>execute\<close> returns a result for every input.  Whenever the body of its
  \<open>try\<close> block fails, and in particular when the caller is unauthenticated, when the
  permission gate rejects the caller, or when one of the external fetches is rejected,
  the result is the structured empty result; otherwise it is the result the body
  computed.  In every case \<open>totalAnalyzed\<close> is the number of accounts returned.
\<close>

theorem execute_always_answers:
  "(execute_try w inp options = Inl e \<longrightarrow> execute w inp options = empty_result)
   \<and> (\<not> isAuthenticated (authenticateRequest options (env_DEMO_API_KEY w)) \<longrightarrow>
        execute w inp options = empty_result)
   \<and> (requireAuth (authenticateRequest options (env_DEMO_API_KEY w)) (Some ''read:users'') = Inl e \<longrightarrow>
        execute w inp options = empty_result)
   \<and> (fetchNpsByAccount w (map accountId (filtered_accounts w inp)) = Inl e \<longrightarrow>
        execute w inp options = empty_result)
   \<and> (fetchSupportSignals w (map accountId (filtered_accounts w inp))
         (now w - windowDays inp * 24 * 3600 * 1000) = Inl e \<longrightarrow>
        execute w inp options = empty_result)
   \<and> (execute w inp options = empty_result
        \<or> execute_try w inp options = Inr (execute w inp options))
   \<and> totalAnalyzed (summary (execute w inp options)) = length (accounts (execute w inp options))"
proof -
  have tot: "totalAnalyzed (summary (execute w inp options)) = length (accounts (execute w inp options))"
    using execute_cases [of w inp options]
    by (auto simp: empty_result_fields execute_try_Inr_iff shape_result_fields)
  show ?thesis
    using tot execute_cases [of w inp options]
    by (auto simp: execute_def execute_try_def Let_def requireAuth_def Promise_all_def
          split: sum.splits)
qed

lemma execute_ok:
  assumes "requireAuth (authenticateRequest options (env_DEMO_API_KEY w)) (Some ''read:users'') = Inr ()"
    and "fetchNpsByAccount w (map accountId (filtered_accounts w inp)) = Inr n"
    and "fetchSupportSignals w (map accountId (filtered_accounts w inp))
           (now w - windowDays inp * 24 * 3600 * 1000) = Inr s"
  shows "execute w inp options =
     shape_result (localeCompare w) (authenticateRequest options (env_DEMO_API_KEY w))
       (limit inp) n s (map (score_row (includeReasons inp) n s) (filtered_accounts w inp))"
  using assms by (simp add: execute_def execute_try_def Let_def Promise_all_def)


lemma default_requireAuth:
  "requireAuth (authenticateRequest None None) (Some ''read:users'') = Inr ()"
  by (simp add: default_ctx requireAuth_def checkPermission_def)

lemma filtered_one:
  "filtered_accounts (world_one key) (input_all l) =
     [\<lparr>accountId = ''1'', name = ''Alice'',
       core = \<lparr>lastOrderDays = 5, orderCountWindow = 2, spendWindow = 300,
               spendPrevWindow = 50, spendDeltaPct = 500\<rparr>\<rparr>]"
  by (simp add: filtered_accounts_def world_one_def input_all_def aggregate_scenario
        segment_filter_def segment_pred_def)


lemma score_row_one:
  "score_row True []
     [(''1'', \<lparr>sig_openP1Tickets = 1, sig_slaBreachesWindow = 0\<rparr>)]
     \<lparr>accountId = ''1'', name = ''Alice'',
       core = \<lparr>lastOrderDays = 5, orderCountWindow = 2, spendWindow = 300,
               spendPrevWindow = 50, spendDeltaPct = 500\<rparr>\<rparr> = row_one"
proof -
  have "Math_round (329 / 4) = 82" by (rule Math_round_eqI) simp_all
  then show ?thesis
    by (simp add: score_row_def score_eval_defs row_one_def String_of_int_def)
qed

lemma execute_world_one:
  "execute (world_one None) (input_all 50) None =
     \<lparr>accounts = [row_one],
      summary = \<lparr>totalAnalyzed = 1, segmentBreakdown = [(good, 1)], avgHealthScore = 82,
                 externalDataCoverage = \<lparr>npsAvailable = 0, supportDataAvailable = 1\<rparr>\<rparr>\<rparr>"
proof -
  have a: "requireAuth (authenticateRequest None (env_DEMO_API_KEY (world_one None)))
             (Some ''read:users'') = Inr ()"
    by (simp add: world_one_def default_requireAuth)
  have n: "fetchNpsByAccount (world_one None)
             (map accountId (filtered_accounts (world_one None) (input_all 50))) = Inr []"
    by (simp add: world_one_def)
  have s: "fetchSupportSignals (world_one None)
             (map accountId (filtered_accounts (world_one None) (input_all 50)))
             (now (world_one None) - windowDays (input_all 50) * 24 * 3600 * 1000) =
           Inr [(''1'', \<lparr>sig_openP1Tickets = 1, sig_slaBreachesWindow = 0\<rparr>)]"
    by (simp add: filtered_one) (simp add: world_one_def)
  have r: "Math_round 82 = 82" by (rule Math_round_eqI) simp_all
  have t: "tier row_one = good" "healthScore row_one = 82" by (simp_all add: row_one_def)
  have d: "localeCompare (world_one None) = string_cmp" "env_DEMO_API_KEY (world_one None) = None"
    by (simp_all add: world_one_def)
  show ?thesis
    unfolding execute_ok [OF a n s] filtered_one
    by (simp add: input_all_def score_row_one shape_result_def Let_def sort_rows_def
          slice0_def roleLimit_of_def default_ctx d t r)
qed

lemma env_world [simp]:
  "env_DEMO_API_KEY (world_one key) = key"
  "env_DEMO_API_KEY (world_nps_down key) = key"
  "env_DEMO_API_KEY (world_12 key) = key"
  by (simp_all add: world_one_def world_nps_down_def world_12_def)

lemma guest_ctx:
  "authenticateRequest options_guest key =
     \<lparr>isAuthenticated = True,
      ctx_authInfo = Some (Info \<lparr>token = ''t'', clientId = ''guest-client'', scopes = [],
         extra = Some \<lparr>userId = ''guest-1'', username = ''guest'', role = RoleUser,
                        permissions = [''read:orders'']\<rparr>\<rparr>),
      user = Some \<lparr>userId = ''guest-1'', username = ''guest'', role = RoleUser,
                    permissions = [''read:orders'']\<rparr>,
      ctx_sessionId = None\<rparr>"
  by (simp add: authenticateRequest_def transport_authInfo_def options_guest_def)

text \<open>
  An unrecognised key, a principal without \<open>read:users\<close> and a rejected NPS fetch each
  give the empty result; the default principal gets a non-empty one.
\<close>

theorem execute_always_answers_witness:
  "\<not> isAuthenticated (authenticateRequest None (env_DEMO_API_KEY (world_one (Some ''no_such_key''))))
   \<and> execute (world_one (Some ''no_such_key'')) (input_all 50) None = empty_result
   \<and> requireAuth (authenticateRequest options_guest (env_DEMO_API_KEY (world_one None)))
        (Some ''read:users'') = Inl (insufficient_permission_error ''read:users'')
   \<and> execute (world_one None) (input_all 50) options_guest = empty_result
   \<and> fetchNpsByAccount (world_nps_down None)
        (map accountId (filtered_accounts (world_nps_down None) (input_all 50)))
        = Inl (Error ''NPS service unavailable'')
   \<and> execute (world_nps_down None) (input_all 50) None = empty_result
   \<and> execute_try (world_one None) (input_all 50) None = Inr (execute (world_one None) (input_all 50) None)
   \<and> execute (world_one None) (input_all 50) None \<noteq> empty_result"
proof -
  have p: "requireAuth (authenticateRequest options_guest (env_DEMO_API_KEY (world_one None)))
        (Some ''read:users'') = Inl (insufficient_permission_error ''read:users'')"
    by (simp add: guest_ctx requireAuth_def checkPermission_def)
  have f: "fetchNpsByAccount (world_nps_down None)
        (map accountId (filtered_accounts (world_nps_down None) (input_all 50)))
        = Inl (Error ''NPS service unavailable'')"
    by (simp add: world_nps_down_def)
  have u: "\<not> isAuthenticated (authenticateRequest None (env_DEMO_API_KEY (world_one (Some ''no_such_key''))))"
    by (simp add: unauth_ctx)
  have ne: "execute (world_one None) (input_all 50) None \<noteq> empty_result"
    by (simp add: execute_world_one empty_result_def)
  note A = execute_always_answers [of "world_one (Some ''no_such_key'')" "input_all 50" None]
  note B = execute_always_answers [of "world_one None" "input_all 50" options_guest
         "insufficient_permission_error ''read:users''"]
  note C = execute_always_answers [of "world_nps_down None" "input_all 50" None
         "Error ''NPS service unavailable''"]
  note D = execute_always_answers [of "world_one None" "input_all 50" None]
  have a: "execute (world_one (Some ''no_such_key'')) (input_all 50) None = empty_result"
    by (rule A [THEN conjunct2, THEN conjunct1, THEN mp, OF u])
  have b: "execute (world_one None) (input_all 50) options_guest = empty_result"
    by (rule B [THEN conjunct2, THEN conjunct2, THEN conjunct1, THEN mp, OF p])
  have c: "execute (world_nps_down None) (input_all 50) None = empty_result"
    by (rule C [THEN conjunct2, THEN conjunct2, THEN conjunct2, THEN conjunct1, THEN mp, OF f])
  have d: "execute_try (world_one None) (input_all 50) None
             = Inr (execute (world_one None) (input_all 50) None)"
    using D [THEN conjunct2, THEN conjunct2, THEN conjunct2, THEN conjunct2, THEN conjunct2,
        THEN conjunct1] ne
    by blast
  show ?thesis
    using p f u ne a b c d by (intro conjI)
qed






lemma length_filtered_accounts:
  "length (filtered_accounts w inp) =
     min 500 (length (filter (segment_pred (segment inp))
                (map (aggregate_user (now w) (windowDays inp) (orders w)) (users w))))"
  by (simp add: filtered_accounts_def segment_filter_def min.commute)

lemma length_accounts_shape_result:
  assumes "0 \<le> l" and "user auth = Some u"
  shows "length (accounts (shape_result cmp auth l n s scored)) =
           min (nat (min l (spec_roleCap (role u) l))) (length scored)"
proof -
  have "0 \<le> roleLimit_of auth l"
    using assms by (simp add: roleLimit_of_def)
  then show ?thesis
    using assms(2) by (simp add: shape_result_fields length_slice0 length_sort_rows roleLimit_of_spec)
qed

text \<open>
  Claim C7.  For a requested limit within the input schema (positive, at most 200), the
  number of returned accounts is at most \<open>min(limit, roleCap(role))\<close>, where the cap is
  10 for \<open>readonly\<close> and the requested limit otherwise; a readonly caller never gets
  more than 10.  A call that passes the gate and whose fetches resolve returns exactly
  the minimum of that bound and the number of accounts left by the segment filter,
  which is the population after the filter capped at 500.
\<close>

theorem result_length_role_cap:
  assumes "0 < limit inp" and "limit inp \<le> 200"
  shows "(user (authenticateRequest options (env_DEMO_API_KEY w)) = Some u \<longrightarrow>
            int (length (accounts (execute w inp options)))
              \<le> min (limit inp) (spec_roleCap (role u) (limit inp)))
   \<and> (user (authenticateRequest options (env_DEMO_API_KEY w)) = None \<longrightarrow>
            accounts (execute w inp options) = [])
   \<and> (user (authenticateRequest options (env_DEMO_API_KEY w)) = Some u \<and> role u = RoleReadonly \<longrightarrow>
            length (accounts (execute w inp options)) \<le> 10)
   \<and> (user (authenticateRequest options (env_DEMO_API_KEY w)) = Some u
        \<and> execute_try w inp options = Inr r \<longrightarrow>
            execute w inp options = r
            \<and> length (accounts r) =
                min (nat (min (limit inp) (spec_roleCap (role u) (limit inp))))
                    (length (filtered_accounts w inp)))
   \<and> length (filtered_accounts w inp) =
        min 500 (length (filter (segment_pred (segment inp))
                   (map (aggregate_user (now w) (windowDays inp) (orders w)) (users w))))"
proof -
  let ?auth = "authenticateRequest options (env_DEMO_API_KEY w)"
  have ok: "execute w inp options = r \<and>
        length (accounts r) = min (nat (min (limit inp) (spec_roleCap (role u) (limit inp))))
                    (length (filtered_accounts w inp))"
    if u: "user ?auth = Some u" and r: "execute_try w inp options = Inr r" for r u
  proof -
    from r obtain n s where
      "r = shape_result (localeCompare w) ?auth (limit inp) n s
             (map (score_row (includeReasons inp) n s) (filtered_accounts w inp))"
      unfolding execute_try_Inr_iff by blast
    then have "length (accounts r) = min (nat (min (limit inp) (spec_roleCap (role u) (limit inp))))
                    (length (filtered_accounts w inp))"
      using length_accounts_shape_result [of "limit inp" ?auth u] assms(1) u by simp
    moreover have "execute w inp options = r"
      using r by (simp add: execute_def)
    ultimately show ?thesis by simp
  qed
  have bound: "int (length (accounts (execute w inp options)))
              \<le> min (limit inp) (spec_roleCap (role u) (limit inp))"
    if u: "user ?auth = Some u" for u
  proof -
    from execute_cases [of w inp options] show ?thesis
    proof
      assume "execute w inp options = empty_result"
      then show ?thesis using assms(1) by (simp add: empty_result_fields spec_roleCap_def)
    next
      assume "execute_try w inp options = Inr (execute w inp options)"
      from ok [OF u this]
      have "length (accounts (execute w inp options)) =
              min (nat (min (limit inp) (spec_roleCap (role u) (limit inp))))
                  (length (filtered_accounts w inp))" ..
      moreover have "0 \<le> min (limit inp) (spec_roleCap (role u) (limit inp))"
        using assms(1) by (simp add: spec_roleCap_def)
      ultimately show ?thesis by linarith
    qed
  qed
  have none: "accounts (execute w inp options) = []" if "user ?auth = None"
  proof -
    have "requireAuth ?auth (Some ''read:users'') \<noteq> Inr ()"
      using that requireAuth_Inr_user [of ?auth] by auto
    then have "execute w inp options = empty_result"
      by (auto simp: execute_def execute_try_def Let_def split: sum.splits)
    then show ?thesis by (simp add: empty_result_fields)
  qed
  have ro: "length (accounts (execute w inp options)) \<le> 10"
    if "user ?auth = Some u" and "role u = RoleReadonly"
    using bound [OF that(1)] that(2) by (simp add: spec_roleCap_def)
  show ?thesis
    using ok bound none ro length_filtered_accounts [of w inp] by blast
qed

lemma execute_try_ok:
  assumes "requireAuth (authenticateRequest options (env_DEMO_API_KEY w)) (Some ''read:users'') = Inr ()"
    and "fetchNpsByAccount w (map accountId (filtered_accounts w inp)) = Inr n"
    and "fetchSupportSignals w (map accountId (filtered_accounts w inp))
           (now w - windowDays inp * 24 * 3600 * 1000) = Inr s"
  shows "execute_try w inp options =
     Inr (shape_result (localeCompare w) (authenticateRequest options (env_DEMO_API_KEY w))
       (limit inp) n s (map (score_row (includeReasons inp) n s) (filtered_accounts w inp)))"
  using assms by (simp add: execute_try_def Let_def Promise_all_def)

lemma world_12_fetches:
  "fetchNpsByAccount (world_12 key) ids = Inr []"
  "\<exists>s. fetchSupportSignals (world_12 key) ids since = Inr s"
  by (simp_all add: world_12_def world_one_def)

lemma world_12_try:
  assumes "requireAuth (authenticateRequest None key) (Some ''read:users'') = Inr ()"
  shows "execute_try (world_12 key) inp None = Inr (execute (world_12 key) inp None)"
proof -
  obtain s where s: "fetchSupportSignals (world_12 key)
       (map accountId (filtered_accounts (world_12 key) inp))
       (now (world_12 key) - windowDays inp * 24 * 3600 * 1000) = Inr s"
    using world_12_fetches(2) by blast
  have a: "requireAuth (authenticateRequest None (env_DEMO_API_KEY (world_12 key)))
             (Some ''read:users'') = Inr ()"
    using assms by simp
  show ?thesis
    unfolding execute_try_ok [OF a world_12_fetches(1) s] execute_ok [OF a world_12_fetches(1) s] ..
qed

lemma limit_input_all: "limit (input_all l) = l"
  by (simp add: input_all_def)

lemma length_filtered_12: "length (filtered_accounts (world_12 key) (input_all l)) = 12"
  by (simp add: length_filtered_accounts input_all_def segment_pred_def world_12_def users_12_def)

text \<open>
  Twelve accounts: a readonly caller asking for 200 receives 10, an admin asking for
  200 receives all 12, an admin asking for 5 receives 5.
\<close>

theorem result_length_role_cap_witness:
  "0 < limit (input_all 200) \<and> limit (input_all 200) \<le> 200
   \<and> length (accounts (execute (world_12 (Some ''api_key_readonly_789'')) (input_all 200) None)) = 10
   \<and> length (accounts (execute (world_12 (Some ''api_key_admin_123'')) (input_all 200) None)) = 12
   \<and> length (accounts (execute (world_12 (Some ''api_key_admin_123'')) (input_all 5) None)) = 5"
proof -
  have l: "0 < limit (input_all 200)" "limit (input_all 200) \<le> 200"
          "0 < limit (input_all 5)" "limit (input_all 5) \<le> 200"
    by (simp_all add: limit_input_all)
  have ro: "requireAuth (authenticateRequest None (Some ''api_key_readonly_789'')) (Some ''read:users'') = Inr ()"
    by (simp add: readonly_ctx requireAuth_def checkPermission_def)
  have ad: "requireAuth (authenticateRequest None (Some ''api_key_admin_123'')) (Some ''read:users'') = Inr ()"
    by (simp add: admin_ctx requireAuth_def checkPermission_def)
  have uro: "user (authenticateRequest None (env_DEMO_API_KEY (world_12 (Some ''api_key_readonly_789''))))
      = Some \<lparr>userId = ''readonly-1'', username = ''viewer'', role = RoleReadonly,
                    permissions = [''read:users'']\<rparr>"
    by (simp add: readonly_ctx)
  have uad: "user (authenticateRequest None (env_DEMO_API_KEY (world_12 (Some ''api_key_admin_123''))))
      = Some \<lparr>userId = ''admin-1'', username = ''admin'', role = RoleAdmin,
                    permissions = [''read:all'', ''write:all'', ''delete:all'']\<rparr>"
    by (simp add: admin_ctx)
  note R = result_length_role_cap [OF l(1,2), THEN conjunct2, THEN conjunct2, THEN conjunct2,
      THEN conjunct1, THEN mp, OF conjI, OF uro world_12_try [OF ro], THEN conjunct2]
  note A = result_length_role_cap [OF l(1,2), THEN conjunct2, THEN conjunct2, THEN conjunct2,
      THEN conjunct1, THEN mp, OF conjI, OF uad world_12_try [OF ad], THEN conjunct2]
  note B = result_length_role_cap [OF l(3,4), THEN conjunct2, THEN conjunct2, THEN conjunct2,
      THEN conjunct1, THEN mp, OF conjI, OF uad world_12_try [OF ad], THEN conjunct2]
  have r: "length (accounts (execute (world_12 (Some ''api_key_readonly_789'')) (input_all 200) None)) = 10"
    unfolding R by (simp add: length_filtered_12 spec_roleCap_def limit_input_all)
  have a: "length (accounts (execute (world_12 (Some ''api_key_admin_123'')) (input_all 200) None)) = 12"
    unfolding A by (simp add: length_filtered_12 spec_roleCap_def limit_input_all)
  have b: "length (accounts (execute (world_12 (Some ''api_key_admin_123'')) (input_all 5) None)) = 5"
    unfolding B by (simp add: length_filtered_12 spec_roleCap_def limit_input_all)
  show ?thesis using l(1,2) r a b by (intro conjI)
qed

section \<open>The run\_sql tool and the permission gate\<close>

lemmas sql_eval_defs = run_sql_execute_def Let_def parseSQL_def executeQuery_def test_select_def
  test_limit_def toLowerCase_def toLowerCase_char_def trim_def is_space_def is_word_char_def
  slice0_def String_of_int_def

lemma world_one_tables:
  "users (world_one key) = [user_1]" "orders (world_one key) = ledger_scenario"
  by (simp_all add: world_one_def)

lemma run_sql_users:
  "run_sql_execute (world_one key) query_users options =
     \<lparr>rows = [UserR user_1], rowCount = 1,
      metadata = \<lparr>executedBy = ''unknown'', permission = ''read:users'',
                   filteredByRole = False, md_error = None\<rparr>\<rparr>"
  by (simp add: sql_eval_defs query_users_def world_one_tables)

lemma run_sql_orders:
  "run_sql_execute (world_one key) query_orders options =
     \<lparr>rows = map OrderR ledger_scenario, rowCount = 4,
      metadata = \<lparr>executedBy = ''unknown'', permission = ''read:orders'',
                   filteredByRole = False, md_error = None\<rparr>\<rparr>"
  by (simp add: sql_eval_defs query_orders_def world_one_tables) (simp add: ledger_scenario_def)

text \<open>The result depends neither on \<open>options\<close> nor on \<open>DEMO_API_KEY\<close>.\<close>

lemma run_sql_ignores_caller:
  "run_sql_execute (w\<lparr>env_DEMO_API_KEY := k\<rparr>) inp options = run_sql_execute w inp options'"
  by (simp add: run_sql_execute_def Let_def)

text \<open>
  Claim C9 asks that every invocation of \<open>run_sql\<close> pass the same authentication
  and permission gate as \<open>compute_account_health\<close> before any row is produced.  The
  function as written never consults the caller.  At the inputs below a caller whom
  \<open>authenticateRequest\<close> leaves unauthenticated, and whom \<open>requireAuth\<close> would
  reject, receives the rows of \<open>users\<close> without an error; and the readonly principal,
  whom \<open>requireAuth\<close> would reject for \<open>read:orders\<close>, receives the rows of
  \<open>orders\<close>, the metadata naming the very permission it lacks.
\<close>

theorem run_sql_without_gate:
  "\<not> isAuthenticated (authenticateRequest None (env_DEMO_API_KEY (world_one (Some ''no_such_key''))))
   \<and> requireAuth (authenticateRequest None (env_DEMO_API_KEY (world_one (Some ''no_such_key''))))
        (Some ''read:users'') = Inl auth_required_error
   \<and> run_sql_execute (world_one (Some ''no_such_key'')) query_users None =
       \<lparr>rows = [UserR user_1], rowCount = 1,
        metadata = \<lparr>executedBy = ''unknown'', permission = ''read:users'',
                     filteredByRole = False, md_error = None\<rparr>\<rparr>
   \<and> requireAuth (authenticateRequest None (env_DEMO_API_KEY (world_one (Some ''api_key_readonly_789''))))
        (Some ''read:orders'') = Inl (insufficient_permission_error ''read:orders'')
   \<and> run_sql_execute (world_one (Some ''api_key_readonly_789'')) query_orders None =
       \<lparr>rows = map OrderR ledger_scenario, rowCount = 4,
        metadata = \<lparr>executedBy = ''unknown'', permission = ''read:orders'',
                     filteredByRole = False, md_error = None\<rparr>\<rparr>"
  by (simp add: run_sql_users run_sql_orders unauth_ctx readonly_ctx requireAuth_def
        checkPermission_def)

end
